theory Spec2Isabelle
  imports Main
begin

section \<open>JavaScript values\<close>

text \<open>
  Request payloads and decoded response bodies are untyped at run time (\<open>data: any\<close>,
  \<open>response.data\<close>). They are modelled as JSON-like values. An object is an association
  list read as a finite map: the first binding of a key is the one the object has.
  Numbers are restricted to integers, which is all the modelled code compares
  (HTTP statuses, retry counters, a charge tested against \<open>0\<close>).
\<close>

datatype jsval =
    JUndefined
  | JNull
  | JBool bool
  | JNum int
  | JStr string
  | JArr "jsval list"
  | JObj "(string \<times> jsval) list"


text \<open>
  Reading a property of a decoded object: \<open>lookup_field kvs k\<close> is \<open>obj.k\<close>, which is
  \<open>undefined\<close> for a key the object does not have.
\<close>

definition lookup_field :: "(string \<times> jsval) list \<Rightarrow> string \<Rightarrow> jsval" where
  "lookup_field kvs k = (case map_of kvs k of None \<Rightarrow> JUndefined | Some v \<Rightarrow> v)"

text \<open>
  Optional chaining \<open>v?.k\<close>, for the two keys the client reads this way (\<open>status\<close> and
  \<open>data\<close>): \<open>undefined\<close> on \<open>null\<close> and \<open>undefined\<close>; on a primitive or an array neither
  key exists, so the result is \<open>undefined\<close> as well.
\<close>

fun opt_member :: "jsval \<Rightarrow> string \<Rightarrow> jsval" where
  "opt_member (JObj kvs) k = lookup_field kvs k"
| "opt_member v k = JUndefined"

text \<open>Decimal rendering of a number inside a template string.\<close>

fun string_of_nat :: "nat \<Rightarrow> string" where
  "string_of_nat n =
     (if n < 10 then [char_of (48 + n)]
      else string_of_nat (n div 10) @ [char_of (48 + n mod 10)])"

declare string_of_nat.simps [simp del]

text \<open>
  \<open>Object.keys(v).length\<close>: the number of own enumerable keys. It throws a
  \<open>TypeError\<close> on \<open>null\<close> and \<open>undefined\<close> (the result \<open>None\<close>).
\<close>

fun object_keys_length :: "jsval \<Rightarrow> nat option" where
  "object_keys_length JUndefined = None"
| "object_keys_length JNull = None"
| "object_keys_length (JBool b) = Some 0"
| "object_keys_length (JNum n) = Some 0"
| "object_keys_length (JStr s) = Some (length s)"
| "object_keys_length (JArr xs) = Some (length xs)"
| "object_keys_length (JObj kvs) = Some (length (remdups (map fst kvs)))"

section \<open>Client configuration (\<open>types/api-types.ts\<close>, \<open>TBOBaseClient.constructor\<close>)\<close>

text \<open>\<open>TBOClientConfig\<close>: every field is optional.\<close>

record TBOClientConfig =
  baseURL :: "string option"
  username :: "string option"
  password :: "string option"
  timeout :: "int option"
  retries :: "int option"

text \<open>The two environment variables the constructor falls back to.\<close>

record process_env =
  TBO_USERNAME :: "string option"
  TBO_PASSWORD :: "string option"

text \<open>\<open>Required<TBOClientConfig>\<close>: the configuration the client keeps in \<open>this.config\<close>.\<close>

record client_config =
  config_baseURL :: string
  config_username :: string
  config_password :: string
  config_timeout :: int
  config_retries :: int

text \<open>
  \<open>a || b\<close> on an optional string and on an optional number: the left operand is
  taken when it is truthy, that is, present and neither \<open>''\<close> nor \<open>0\<close>.
\<close>

definition or_string :: "string option \<Rightarrow> string \<Rightarrow> string" where
  "or_string a b = (case a of None \<Rightarrow> b | Some s \<Rightarrow> if s = [] then b else s)"

definition or_number :: "int option \<Rightarrow> int \<Rightarrow> int" where
  "or_number a b = (case a of None \<Rightarrow> b | Some n \<Rightarrow> if n = 0 then b else n)"

definition TBOBaseClient :: "TBOClientConfig \<Rightarrow> process_env \<Rightarrow> client_config" where
  "TBOBaseClient config env =
     \<lparr> config_baseURL =
         or_string (baseURL config) ''http://api.tbotechnology.in/TBOHolidays_HotelAPI'',
       config_username = or_string (username config) (or_string (TBO_USERNAME env) ''''),
       config_password = or_string (password config) (or_string (TBO_PASSWORD env) ''''),
       config_timeout = or_number (timeout config) 30000,
       config_retries = or_number (retries config) 3 \<rparr>"

section \<open>Requests, responses and errors\<close>

datatype http_method = GET | POST

text \<open>
  The request configuration \<open>AxiosRequestConfig & { _retryCount?: number }\<close>, with the
  fields \<open>makeRequest\<close> and the retry logic read or write.
\<close>

record request_config =
  req_method :: http_method
  req_url :: string
  req_data :: "jsval option"
  req_params :: "jsval option"
  req_retryCount :: "int option"

record axios_response =
  resp_status :: nat
  resp_data :: jsval

text \<open>The error the HTTP library rejects with: \<open>message\<close>, \<open>response?\<close>, \<open>config?\<close>.\<close>

record axios_error =
  err_message :: string
  err_response :: "axios_response option"
  err_config :: "request_config option"

text \<open>\<open>TBOError\<close>: an \<open>Error\<close> with \<open>code\<close>, \<open>response\<close> and \<open>request\<close> attached.\<close>

record TBOError =
  tbo_message :: string
  tbo_code :: jsval
  tbo_response :: jsval
  tbo_request :: "request_config option"

text \<open>
  \<open>createTBOError(error: any)\<close> is called on two kinds of object: on the library's
  error inside the response interceptor, and on whatever \<open>makeRequest\<close> catches, which is
  the \<open>TBOError\<close> the interceptor rejected with. A \<open>TBOError\<close> has no \<open>config\<close>
  property, and its \<open>response\<close> property is the body of the failed response.
\<close>

datatype thrown = AxiosError axios_error | Wrapped TBOError

fun createTBOError :: "thrown \<Rightarrow> TBOError" where
  "createTBOError (AxiosError error) =
     \<lparr> tbo_message = err_message error,
       tbo_code = (case err_response error of
                     None \<Rightarrow> JUndefined
                   | Some r \<Rightarrow> JNum (int (resp_status r))),
       tbo_response = (case err_response error of
                         None \<Rightarrow> JUndefined
                       | Some r \<Rightarrow> resp_data r),
       tbo_request = err_config error \<rparr>"
| "createTBOError (Wrapped error) =
     \<lparr> tbo_message = tbo_message error,
       tbo_code = opt_member (tbo_response error) ''status'',
       tbo_response = opt_member (tbo_response error) ''data'',
       tbo_request = None \<rparr>"

section \<open>The transport\<close>

text \<open>
  What the network answers to one attempt: an HTTP response (status and decoded body),
  or no response at all (timeout, DNS or connection failure) with the library's
  message. A transport gives the outcome of each attempt of one logical call, attempts
  counted from \<open>0\<close>.
\<close>

datatype outcome = Responded nat jsval | NoResponse string

type_synonym transport = "nat \<Rightarrow> outcome"

text \<open>
  A transport given by a script: the listed outcomes in order, then \<open>final\<close> for ever.
\<close>

definition scripted :: "outcome list \<Rightarrow> outcome \<Rightarrow> transport" where
  "scripted outs final n = (if n < length outs then outs ! n else final)"

text \<open>
  The HTTP library settles a request with its default \<open>validateStatus\<close>: a status in
  \<open>200..299\<close> resolves with the response, any other rejects with an error that carries
  the response and the configuration.
\<close>

definition validateStatus :: "nat \<Rightarrow> bool" where
  "validateStatus s = (200 \<le> s \<and> s < 300)"

fun settle :: "request_config \<Rightarrow> outcome \<Rightarrow> axios_error + axios_response" where
  "settle config (Responded s body) =
     (if validateStatus s then Inr \<lparr> resp_status = s, resp_data = body \<rparr>
      else Inl \<lparr> err_message = ''Request failed with status code '' @ string_of_nat s,
                 err_response = Some \<lparr> resp_status = s, resp_data = body \<rparr>,
                 err_config = Some config \<rparr>)"
| "settle config (NoResponse msg) =
     Inl \<lparr> err_message = msg, err_response = None, err_config = Some config \<rparr>"

section \<open>The request executor (\<open>clients/base-client.ts\<close>)\<close>

text \<open>
  What one logical call does, in order: each request handed to the transport, and each
  \<open>delay(ms)\<close> awaited.
\<close>

datatype event = Sent request_config | Waited int

text \<open>\<open>config._retryCount || 0\<close>\<close>

definition retryCount_or_0 :: "request_config \<Rightarrow> int" where
  "retryCount_or_0 config = or_number (req_retryCount config) 0"

text \<open>
  \<open>this.client.request(config)\<close> with both interceptors installed. \<open>n\<close> is the number of
  attempts already issued for this call. The request interceptor only logs. A response
  that resolves passes the response interceptor unchanged. A rejection enters the
  retry logic: while \<open>(_retryCount || 0) < this.config.retries\<close> the counter is
  incremented on the error's configuration, \<open>delay(1000 * _retryCount)\<close> is awaited and
  that configuration is requested again; otherwise the interceptor rejects with
  \<open>createTBOError(error)\<close>.
\<close>

function client_request ::
  "int \<Rightarrow> transport \<Rightarrow> nat \<Rightarrow> request_config \<Rightarrow> (TBOError + axios_response) \<times> event list"
where
  "client_request maxRetries tr n config =
     (case settle config (tr n) of
        Inr response \<Rightarrow> (Inr response, [Sent config])
      | Inl error \<Rightarrow>
          (case err_config error of
             Some cfg \<Rightarrow>
               if retryCount_or_0 cfg < maxRetries then
                 let retryCount = retryCount_or_0 cfg + 1;
                     cfg' = cfg\<lparr> req_retryCount := Some retryCount \<rparr>;
                     (result, evs) = client_request maxRetries tr (Suc n) cfg'
                 in (result, Sent config # Waited (1000 * retryCount) # evs)
               else (Inl (createTBOError (AxiosError error)), [Sent config])
           | None \<Rightarrow> (Inl (createTBOError (AxiosError error)), [Sent config])))"
  by pat_completeness auto
termination
proof (relation "measure (\<lambda>(maxRetries, tr, n, config). nat (maxRetries - retryCount_or_0 config))")
  show "wf (measure (\<lambda>(maxRetries, tr, n, config). nat (maxRetries - retryCount_or_0 config)))"
    by simp
next
  fix maxRetries :: int and tr :: transport and n :: nat and config error cfg retryCount cfg'
  assume s: "settle config (tr n) = Inl error"
    and c: "err_config error = Some cfg"
    and lt: "retryCount_or_0 cfg < maxRetries"
    and r: "retryCount = retryCount_or_0 cfg + 1"
    and c': "cfg' = cfg\<lparr> req_retryCount := Some retryCount \<rparr>"
  from s have "err_config error = Some config"
    by (cases "tr n") (auto split: if_splits)
  with c have eq: "cfg = config"
    by simp
  have "retryCount_or_0 cfg' = retryCount_or_0 cfg + 1"
    using c' r by (simp add: retryCount_or_0_def or_number_def)
  then show "((maxRetries, tr, Suc n, cfg'), (maxRetries, tr, n, config))
          \<in> measure (\<lambda>(maxRetries, tr, n, config). nat (maxRetries - retryCount_or_0 config))"
    using lt eq by auto
qed

declare client_request.simps [simp del]

text \<open>What a trace shows: the configurations requested, in order, and the waits.\<close>

fun sent_configs :: "event list \<Rightarrow> request_config list" where
  "sent_configs [] = []"
| "sent_configs (Sent c # evs) = c # sent_configs evs"
| "sent_configs (Waited ms # evs) = sent_configs evs"

fun waits :: "event list \<Rightarrow> int list" where
  "waits [] = []"
| "waits (Sent c # evs) = waits evs"
| "waits (Waited ms # evs) = ms # waits evs"

definition attempts :: "event list \<Rightarrow> nat" where
  "attempts evs = length (sent_configs evs)"

text \<open>
  What \<open>makeRequest\<close> can throw: the \<open>TypeError\<close> of \<open>Object.keys(null)\<close>, raised before
  any request is made, or the \<open>TBOError\<close> built in its \<open>catch\<close> block.
\<close>

datatype failure = TypeError | Rejected TBOError

text \<open>
  The first half of \<open>makeRequest\<close>: the configuration it builds from its arguments.
  An omitted (\<open>undefined\<close>) \<open>data\<close> defaults to \<open>{}\<close> and an omitted method to \<open>POST\<close>.
  \<open>Object.keys(data)\<close> is evaluated only on the \<open>GET\<close> branch.
\<close>

definition makeRequest_config ::
  "string \<Rightarrow> jsval \<Rightarrow> http_method option \<Rightarrow> failure + request_config"
where
  "makeRequest_config endpoint data0 method0 =
     (let data = (if data0 = JUndefined then JObj [] else data0);
          method = (case method0 of None \<Rightarrow> POST | Some m \<Rightarrow> m);
          config = \<lparr> req_method = method, req_url = ''/'' @ endpoint,
                     req_data = None, req_params = None, req_retryCount = Some 0 \<rparr>
      in if method = POST then Inr (config\<lparr> req_data := Some data \<rparr>)
         else (case object_keys_length data of
                 None \<Rightarrow> Inl TypeError
               | Some len \<Rightarrow>
                   if method = GET \<and> len > 0 then Inr (config\<lparr> req_params := Some data \<rparr>)
                   else Inr config))"

text \<open>
  \<open>makeRequest\<close>: the request is issued through the client; a response resolves to its
  \<open>data\<close>, and whatever the client rejects with is passed to \<open>createTBOError\<close> once
  more and thrown. The result comes with the trace of the call.
\<close>

definition makeRequest ::
  "client_config \<Rightarrow> transport \<Rightarrow> string \<Rightarrow> jsval \<Rightarrow> http_method option
     \<Rightarrow> (failure + jsval) \<times> event list"
where
  "makeRequest this tr endpoint data0 method0 =
     (case makeRequest_config endpoint data0 method0 of
        Inl e \<Rightarrow> (Inl e, [])
      | Inr config \<Rightarrow>
          (case client_request (config_retries this) tr 0 config of
             (Inr response, evs) \<Rightarrow> (Inr (resp_data response), evs)
           | (Inl error, evs) \<Rightarrow> (Inl (Rejected (createTBOError (Wrapped error))), evs)))"

section \<open>Extraction helpers (\<open>clients/utilities-client.ts\<close>)\<close>






section \<open>Pre-book information (the pre-book client)\<close>

text \<open>
  The typed response of \<open>types/api-types.ts\<close>. A member the code tests for presence
  before reading it is an option: \<open>None\<close> is an absent or \<open>null\<close> member.
\<close>

record CancellationPolicy =
  FromDate :: string
  ChargeType :: string
  CancellationCharge :: int

record Price =
  OfferedPrice :: int
  CurrencyCode :: string

record CancellationPolicies =
  CancelPolicies :: "CancellationPolicy list option"
  NonRefundable :: bool

record HotelBookingDetails =
  BookingCode :: string
  HotelName :: string
  CheckIn :: string
  CheckOut :: string
  Price :: "Price option"
  CancellationPolicies :: "CancellationPolicies option"

record Status =
  Code :: int
  Description :: string

record PreBookResponse =
  Status :: "Status option"
  HotelBookingDetails :: "HotelBookingDetails option"

record status_info =
  code :: int
  description :: string

record PreBookInfo =
  status :: "status_info option"
  bookingCode :: "string option"
  totalFare :: "int option"
  currency :: "string option"
  hotelName :: "string option"
  checkIn :: "string option"
  checkOut :: "string option"
  isRefundable :: bool
  cancellationPolicies :: "CancellationPolicy list option"

text \<open>
  \<open>extractPreBookInfo\<close> fills \<open>info\<close> in four steps, each guarded by the presence of
  the member it reads. The steps are the source's blocks, in the source's order.
\<close>

definition info_init :: PreBookInfo where
  "info_init =
     \<lparr> status = None, bookingCode = None, totalFare = None, currency = None,
       hotelName = None, checkIn = None, checkOut = None, isRefundable = False,
       cancellationPolicies = None \<rparr>"

definition extract_status :: "PreBookResponse \<Rightarrow> PreBookInfo \<Rightarrow> PreBookInfo" where
  "extract_status response info =
     (case Status response of
        None \<Rightarrow> info
      | Some st \<Rightarrow> info\<lparr> status := Some \<lparr> code = Code st, description = Description st \<rparr> \<rparr>)"

definition extract_pricing :: "HotelBookingDetails \<Rightarrow> PreBookInfo \<Rightarrow> PreBookInfo" where
  "extract_pricing details info =
     (case Price details of
        None \<Rightarrow> info
      | Some p \<Rightarrow> info\<lparr> totalFare := Some (OfferedPrice p), currency := Some (CurrencyCode p) \<rparr>)"

definition extract_cancellation :: "HotelBookingDetails \<Rightarrow> PreBookInfo \<Rightarrow> PreBookInfo" where
  "extract_cancellation details info =
     (case CancellationPolicies details of
        None \<Rightarrow> info
      | Some cp \<Rightarrow>
          (let info1 = info\<lparr> cancellationPolicies := CancelPolicies cp,
                                isRefundable := \<not> NonRefundable cp \<rparr>
           in case CancelPolicies cp of
                None \<Rightarrow> info1
              | Some [] \<Rightarrow> info1
              | Some (firstPolicy # rest) \<Rightarrow>
                  if CancellationCharge firstPolicy = 0 then info1\<lparr> isRefundable := True \<rparr>
                  else info1))"

definition extractPreBookInfo :: "PreBookResponse \<Rightarrow> PreBookInfo" where
  "extractPreBookInfo response =
     (let info = extract_status response info_init
      in case HotelBookingDetails response of
           None \<Rightarrow> info
         | Some details \<Rightarrow>
             extract_cancellation details
               (extract_pricing details
                  (info\<lparr> bookingCode := Some (BookingCode details),
                          hotelName := Some (HotelName details),
                          checkIn := Some (CheckIn details),
                          checkOut := Some (CheckOut details) \<rparr>)))"

section \<open>Auxiliary notions for the proofs\<close>

text \<open>
  The retry step on a configuration (the increment of \<open>_retryCount\<close>), the outcomes
  the HTTP library rejects, and the error it rejects them with.
\<close>

definition bump :: "request_config \<Rightarrow> request_config" where
  "bump config = config\<lparr> req_retryCount := Some (retryCount_or_0 config + 1) \<rparr>"

fun failed :: "outcome \<Rightarrow> bool" where
  "failed (Responded s body) = (\<not> validateStatus s)"
| "failed (NoResponse msg) = True"

fun rejection :: "request_config \<Rightarrow> outcome \<Rightarrow> axios_error" where
  "rejection config (Responded s body) =
     \<lparr> err_message = ''Request failed with status code '' @ string_of_nat s,
       err_response = Some \<lparr> resp_status = s, resp_data = body \<rparr>,
       err_config = Some config \<rparr>"
| "rejection config (NoResponse msg) =
     \<lparr> err_message = msg, err_response = None, err_config = Some config \<rparr>"

section \<open>Lemmas about the executor\<close>

lemma settle_failed: "failed out \<Longrightarrow> settle config out = Inl (rejection config out)"
  by (cases out) auto

lemma settle_ok:
  "validateStatus s \<Longrightarrow> settle config (Responded s body) = Inr \<lparr> resp_status = s, resp_data = body \<rparr>"
  by simp

lemma settle_cases:
  "settle config out = (if failed out then Inl (rejection config out)
     else Inr (case out of Responded s body \<Rightarrow> \<lparr> resp_status = s, resp_data = body \<rparr>))"
  by (cases out) auto

lemma err_config_rejection [simp]: "err_config (rejection config out) = Some config"
  by (cases out) auto

lemma retryCount_bump [simp]: "retryCount_or_0 (bump config) = retryCount_or_0 config + 1"
  by (simp add: bump_def retryCount_or_0_def or_number_def)

lemma client_request_success:
  "\<not> failed (tr n) \<Longrightarrow> tr n = Responded s body \<Longrightarrow>
   client_request R tr n config = (Inr \<lparr> resp_status = s, resp_data = body \<rparr>, [Sent config])"
  by (subst client_request.simps) simp

lemma client_request_exhausted:
  "failed (tr n) \<Longrightarrow> \<not> retryCount_or_0 config < R \<Longrightarrow>
   client_request R tr n config =
     (Inl (createTBOError (AxiosError (rejection config (tr n)))), [Sent config])"
  by (subst client_request.simps) (simp add: settle_failed)

lemma client_request_retry:
  "failed (tr n) \<Longrightarrow> retryCount_or_0 config < R \<Longrightarrow>
   client_request R tr n config =
     (fst (client_request R tr (Suc n) (bump config)),
      Sent config # Waited (1000 * (retryCount_or_0 config + 1))
        # snd (client_request R tr (Suc n) (bump config)))"
  by (subst client_request.simps)
     (simp add: settle_failed Let_def split_beta bump_def[symmetric])

lemma client_request_succeeds_after:
  "\<forall>i<k. failed (tr (n + i)) \<Longrightarrow> tr (n + k) = Responded s body \<Longrightarrow> validateStatus s \<Longrightarrow>
   retryCount_or_0 config + int k \<le> R \<Longrightarrow>
   fst (client_request R tr n config) = Inr \<lparr> resp_status = s, resp_data = body \<rparr> \<and>
   attempts (snd (client_request R tr n config)) = Suc k"
proof (induction k arbitrary: n config)
  case 0
  then have "\<not> failed (tr n)" by simp
  with 0 show ?case
    by (simp add: client_request_success attempts_def)
next
  case (Suc k)
  have f: "failed (tr n)" using Suc.prems(1) by (metis add.right_neutral zero_less_Suc)
  have lt: "retryCount_or_0 config < R" using Suc.prems(4) by simp
  have a: "\<forall>i<k. failed (tr (Suc n + i))" using Suc.prems(1) by auto
  have b: "tr (Suc n + k) = Responded s body" using Suc.prems(2) by simp
  have c: "retryCount_or_0 (bump config) + int k \<le> R" using Suc.prems(4) by simp
  from Suc.IH[OF a b Suc.prems(3) c] show ?case
    using f lt by (simp add: client_request_retry attempts_def)
qed

lemma client_request_exhausts:
  "\<forall>i\<le>k. failed (tr (n + i)) \<Longrightarrow> k = nat (R - retryCount_or_0 config) \<Longrightarrow>
   fst (client_request R tr n config) =
     Inl (createTBOError (AxiosError (rejection ((bump ^^ k) config) (tr (n + k))))) \<and>
   attempts (snd (client_request R tr n config)) = Suc k"
proof (induction k arbitrary: n config)
  case 0
  then have f: "failed (tr n)" and ge: "\<not> retryCount_or_0 config < R" by auto
  show ?case
    using f ge by (simp add: client_request_exhausted attempts_def)
next
  case (Suc k)
  have f: "failed (tr n)" using Suc.prems(1) by (metis add.right_neutral le0)
  have lt: "retryCount_or_0 config < R" using Suc.prems(2) by simp
  have a: "\<forall>i\<le>k. failed (tr (Suc n + i))" using Suc.prems(1) by auto
  have c: "k = nat (R - retryCount_or_0 (bump config))" using Suc.prems(2) by simp
  from Suc.IH[OF a c] show ?case
    using f lt by (simp add: client_request_retry attempts_def funpow_swap1)
qed

lemma client_request_trace:
  "k = nat (R - retryCount_or_0 config) \<Longrightarrow> evs = snd (client_request R tr n config) \<Longrightarrow>
   length evs = 2 * attempts evs - 1 \<and> 0 < attempts evs \<and>
   (\<forall>i<attempts evs. evs ! (2 * i) = Sent ((bump ^^ i) config) \<and>
                       sent_configs evs ! i = (bump ^^ i) config) \<and>
   (\<forall>i. Suc i < attempts evs \<longrightarrow>
        evs ! (2 * i + 1) = Waited (1000 * (retryCount_or_0 config + int i + 1)) \<and>
        waits evs ! i = 1000 * (retryCount_or_0 config + int i + 1)) \<and>
   length (waits evs) = attempts evs - 1"
proof (induction k arbitrary: n config evs)
  case 0
  then have ge: "\<not> retryCount_or_0 config < R" by simp
  show ?case
  proof (cases "failed (tr n)")
    case False
    then obtain s body where "tr n = Responded s body" by (cases "tr n") auto
    with False 0(2) show ?thesis
      by (simp add: client_request_success attempts_def)
  next
    case True
    with ge 0(2) show ?thesis
      by (simp add: client_request_exhausted attempts_def)
  qed
next
  case (Suc k)
  then have lt: "retryCount_or_0 config < R" by simp
  show ?case
  proof (cases "failed (tr n)")
    case False
    then obtain s body where "tr n = Responded s body" by (cases "tr n") auto
    with False Suc.prems(2) show ?thesis
      by (simp add: client_request_success attempts_def)
  next
    case f: True
    define evs' where "evs' = snd (client_request R tr (Suc n) (bump config))"
    have k: "k = nat (R - retryCount_or_0 (bump config))"
      using Suc.prems(1) by simp
    have IH: "length evs' = 2 * attempts evs' - 1 \<and> 0 < attempts evs' \<and>
      (\<forall>i<attempts evs'. evs' ! (2 * i) = Sent ((bump ^^ i) (bump config)) \<and>
                     sent_configs evs' ! i = (bump ^^ i) (bump config)) \<and>
      (\<forall>i. Suc i < attempts evs' \<longrightarrow>
        evs' ! (2 * i + 1) = Waited (1000 * (retryCount_or_0 (bump config) + int i + 1)) \<and>
        waits evs' ! i = 1000 * (retryCount_or_0 (bump config) + int i + 1)) \<and>
      length (waits evs') = attempts evs' - 1"
      using Suc.IH[OF k evs'_def] .
    have evs: "evs = Sent config # Waited (1000 * (retryCount_or_0 config + 1)) # evs'"
      using Suc.prems f lt by (simp add: client_request_retry evs'_def)
    have att: "attempts evs = Suc (attempts evs')"
      by (simp add: evs attempts_def)
    have len0: "length evs = Suc (Suc (length evs'))"
      by (simp add: evs)
    have len: "length evs = 2 * attempts evs - 1"
      using IH by (simp add: len0 att)
    have sent: "evs ! (2 * i) = Sent ((bump ^^ i) config) \<and>
                sent_configs evs ! i = (bump ^^ i) config" if "i < attempts evs" for i
    proof (cases i)
      case 0
      then show ?thesis by (simp add: evs)
    next
      case (Suc j)
      with that att have "j < attempts evs'" by simp
      with IH show ?thesis by (simp add: evs Suc funpow_swap1)
    qed
    have wait: "evs ! (2 * i + 1) = Waited (1000 * (retryCount_or_0 config + int i + 1)) \<and>
      waits evs ! i = 1000 * (retryCount_or_0 config + int i + 1)" if "Suc i < attempts evs" for i
    proof (cases i)
      case 0
      then show ?thesis by (simp add: evs)
    next
      case (Suc j)
      with that att have "Suc j < attempts evs'" by simp
      with IH show ?thesis by (simp add: evs Suc)
    qed
    have lw0: "length (waits evs) = Suc (length (waits evs'))"
      by (simp add: evs)
    have lw: "length (waits evs) = attempts evs - 1"
      using IH by (simp add: lw0 att)
    show ?thesis using len sent wait lw att by simp
  qed
qed

section \<open>Lemmas about \<open>makeRequest\<close>\<close>

lemma makeRequest_config_retryCount:
  "makeRequest_config ep d m0 = Inr config \<Longrightarrow> retryCount_or_0 config = 0 \<and> req_retryCount config = Some 0"
  by (auto simp: makeRequest_config_def Let_def retryCount_or_0_def or_number_def
      split: if_splits option.splits)

lemma remdups_keys_nonempty: "0 < length (remdups (map fst kvs)) \<longleftrightarrow> kvs \<noteq> []"
  by (cases kvs) auto

lemma makeRequest_config_JObj:
  "makeRequest_config ep (JObj kvs) m0 =
     Inr \<lparr> req_method = (case m0 of None \<Rightarrow> POST | Some m \<Rightarrow> m),
           req_url = ''/'' @ ep,
           req_data = (if (case m0 of None \<Rightarrow> POST | Some m \<Rightarrow> m) = POST
                       then Some (JObj kvs) else None),
           req_params = (if (case m0 of None \<Rightarrow> POST | Some m \<Rightarrow> m) = GET \<and> kvs \<noteq> []
                         then Some (JObj kvs) else None),
           req_retryCount = Some 0 \<rparr>"
proof (cases "case m0 of None \<Rightarrow> POST | Some m \<Rightarrow> m")
  case GET
  then show ?thesis
    by (simp add: makeRequest_config_def Let_def)
next
  case POST
  then show ?thesis
    by (simp add: makeRequest_config_def Let_def)
qed

lemma makeRequest_unfold:
  "makeRequest_config ep d m0 = Inr config \<Longrightarrow>
   makeRequest this tr ep d m0 =
     (case fst (client_request (config_retries this) tr 0 config) of
        Inr response \<Rightarrow> Inr (resp_data response)
      | Inl error \<Rightarrow> Inl (Rejected (createTBOError (Wrapped error))),
      snd (client_request (config_retries this) tr 0 config))"
  by (simp add: makeRequest_def split: prod.splits sum.splits)

lemma bump_funpow:
  "req_retryCount config = Some 0 \<Longrightarrow>
   (bump ^^ i) config = config\<lparr> req_retryCount := Some (int i) \<rparr>"
proof (induction i)
  case 0
  then show ?case by simp
next
  case (Suc i)
  then show ?case
    by (simp add: bump_def retryCount_or_0_def or_number_def)
qed

lemma makeRequest_exhausts:
  assumes cfg: "makeRequest_config ep d m0 = Inr config"
    and f: "\<forall>i\<le>nat (config_retries this). failed (tr i)"
  shows "fst (makeRequest this tr ep d m0) =
           Inl (Rejected (createTBOError (Wrapped (createTBOError (AxiosError
             (rejection (config\<lparr> req_retryCount := Some (int (nat (config_retries this))) \<rparr>)
                (tr (nat (config_retries this)))))))))"
    and "attempts (snd (makeRequest this tr ep d m0)) = Suc (nat (config_retries this))"
proof -
  let ?k = "nat (config_retries this)"
  have rc: "retryCount_or_0 config = 0" "req_retryCount config = Some 0"
    using makeRequest_config_retryCount[OF cfg] by simp_all
  have f': "\<forall>i\<le>?k. failed (tr (0 + i))" using f by simp
  have k: "?k = nat (config_retries this - retryCount_or_0 config)" using rc by simp
  note ex = client_request_exhausts[OF f' k]
  show "fst (makeRequest this tr ep d m0) =
           Inl (Rejected (createTBOError (Wrapped (createTBOError (AxiosError
             (rejection (config\<lparr> req_retryCount := Some (int ?k) \<rparr>) (tr ?k)))))))"
    using ex by (simp add: makeRequest_unfold[OF cfg] bump_funpow[OF rc(2)])
  show "attempts (snd (makeRequest this tr ep d m0)) = Suc ?k"
    using ex by (simp add: makeRequest_unfold[OF cfg])
qed

lemma makeRequest_succeeds_after:
  assumes cfg: "makeRequest_config ep d m0 = Inr config"
    and f: "\<forall>i<k. failed (tr i)"
    and ok: "tr k = Responded s body" "validateStatus s"
    and k: "int k \<le> config_retries this"
  shows "fst (makeRequest this tr ep d m0) = Inr body"
    and "attempts (snd (makeRequest this tr ep d m0)) = Suc k"
proof -
  have rc: "retryCount_or_0 config = 0"
    using makeRequest_config_retryCount[OF cfg] by simp
  have f': "\<forall>i<k. failed (tr (0 + i))" using f by simp
  have ok': "tr (0 + k) = Responded s body" using ok by simp
  have k': "retryCount_or_0 config + int k \<le> config_retries this" using k rc by simp
  note su = client_request_succeeds_after[OF f' ok' ok(2) k']
  show "fst (makeRequest this tr ep d m0) = Inr body"
    using su by (simp add: makeRequest_unfold[OF cfg])
  show "attempts (snd (makeRequest this tr ep d m0)) = Suc k"
    using su by (simp add: makeRequest_unfold[OF cfg])
qed



section \<open>A 401 is retried like every other failure (C1)\<close>

text \<open>
  C1, as amended. The response interceptor does not look at the status of a failure:
  a request answered with HTTP 401 on every attempt is retried like any other failed
  request. The call issues \<open>max(retries, 0) + 1\<close> attempts, where \<open>retries\<close> is the
  client's effective retry count, and then rejects with a \<open>TBOError\<close> whose message is
  the one of a 401 failure. It is rejected after exactly one attempt only when the
  effective retry count is not positive.
\<close>

theorem unauthorized_is_retried:
  assumes "\<forall>i. \<exists>body. tr i = Responded 401 body"
  shows "attempts (snd (makeRequest this tr endpoint (JObj payload) meth))
           = Suc (nat (config_retries this)) \<and>
         (\<exists>e. fst (makeRequest this tr endpoint (JObj payload) meth) = Inl (Rejected e) \<and>
              tbo_message e = ''Request failed with status code '' @ string_of_nat 401)"
proof -
  have f: "\<forall>i\<le>nat (config_retries this). failed (tr i)"
  proof (intro allI impI)
    fix i
    from assms obtain body where "tr i = Responded 401 body" by blast
    then show "failed (tr i)" by (simp add: validateStatus_def)
  qed
  from assms obtain body where last: "tr (nat (config_retries this)) = Responded 401 body"
    by blast
  show ?thesis
    using makeRequest_exhausts[OF makeRequest_config_JObj f, of endpoint payload meth]
    by (simp add: last)
qed

theorem unauthorized_is_retried_witness:
  "attempts (snd (makeRequest
      (TBOBaseClient \<lparr> baseURL = None, username = Some ''user'', password = Some ''wrong'',
                        timeout = None, retries = Some 2 \<rparr>
                     \<lparr> TBO_USERNAME = None, TBO_PASSWORD = None \<rparr>)
      (scripted [] (Responded 401 JNull)) ''CountryList'' (JObj []) (Some GET))) = 3"
proof -
  have h: "\<forall>i. \<exists>body. scripted [] (Responded 401 JNull) i = Responded 401 body"
    by (simp add: scripted_def)
  show ?thesis
    using unauthorized_is_retried[OF h,
      of "TBOBaseClient \<lparr> baseURL = None, username = Some ''user'', password = Some ''wrong'',
                           timeout = None, retries = Some 2 \<rparr>
                        \<lparr> TBO_USERNAME = None, TBO_PASSWORD = None \<rparr>"
         "''CountryList''" "[]" "Some GET"]
    by (simp add: TBOBaseClient_def or_number_def)
qed

text \<open>
  With the default configuration, a transport that answers 401 to every attempt is
  asked four times, after waits of one, two and three seconds.
\<close>

theorem unauthorized_counterexample:
  "attempts (snd (makeRequest
      (TBOBaseClient \<lparr> baseURL = None, username = Some ''user'', password = Some ''wrong'',
                        timeout = None, retries = None \<rparr>
                     \<lparr> TBO_USERNAME = None, TBO_PASSWORD = None \<rparr>)
      (scripted [] (Responded 401 JNull)) ''CountryList'' (JObj []) (Some GET))) = 4 \<and>
   waits (snd (makeRequest
      (TBOBaseClient \<lparr> baseURL = None, username = Some ''user'', password = Some ''wrong'',
                        timeout = None, retries = None \<rparr>
                     \<lparr> TBO_USERNAME = None, TBO_PASSWORD = None \<rparr>)
      (scripted [] (Responded 401 JNull)) ''CountryList'' (JObj []) (Some GET)))
     = [1000, 2000, 3000]"
  by (simp add: makeRequest_def makeRequest_config_def client_request.simps scripted_def
      TBOBaseClient_def or_number_def or_string_def retryCount_or_0_def validateStatus_def
      attempts_def Let_def)

section \<open>Other 4xx failures are retried as well (C2)\<close>

text \<open>
  C2, as amended. When the first attempt is answered with a status in \<open>400..499\<close>
  other than 401 and the effective retry count is positive, the executor waits 1000 ms
  and issues the same request again with \<open>_retryCount = 1\<close>. Only when the effective
  retry count is not positive does the call reject after that single attempt, with a
  \<open>TBOError\<close> that carries the message of the failure.
\<close>

theorem client_error_is_retried:
  assumes "tr 0 = Responded s body" and "400 \<le> s" and "s \<le> 499" and "s \<noteq> 401"
    and "makeRequest_config endpoint data0 meth = Inr config"
  shows "(0 < config_retries this \<longrightarrow>
            take 3 (snd (makeRequest this tr endpoint data0 meth))
              = [Sent config, Waited 1000, Sent (config\<lparr> req_retryCount := Some 1 \<rparr>)]) \<and>
         (config_retries this \<le> 0 \<longrightarrow>
            snd (makeRequest this tr endpoint data0 meth) = [Sent config] \<and>
            (\<exists>e. fst (makeRequest this tr endpoint data0 meth) = Inl (Rejected e) \<and>
                 tbo_message e = ''Request failed with status code '' @ string_of_nat s))"
proof -
  let ?R = "config_retries this"
  have f: "failed (tr 0)"
    using assms(1-3) by (simp add: validateStatus_def)
  have rc: "retryCount_or_0 config = 0" "req_retryCount config = Some 0"
    using makeRequest_config_retryCount[OF assms(5)] by simp_all
  have b: "bump config = config\<lparr> req_retryCount := Some 1 \<rparr>"
    using bump_funpow[OF rc(2), of 1] by simp
  have retry: "take 3 (snd (makeRequest this tr endpoint data0 meth))
      = [Sent config, Waited 1000, Sent (config\<lparr> req_retryCount := Some 1 \<rparr>)]"
    if pos: "0 < ?R"
  proof -
    define evs' where "evs' = snd (client_request ?R tr (Suc 0) (bump config))"
    have t: "length evs' = 2 * attempts evs' - 1 \<and> 0 < attempts evs' \<and>
             (\<forall>i<attempts evs'. evs' ! (2 * i) = Sent ((bump ^^ i) (bump config)) \<and>
                sent_configs evs' ! i = (bump ^^ i) (bump config))"
      using client_request_trace[OF refl evs'_def] by simp
    then have "evs' \<noteq> []" and "evs' ! 0 = Sent (bump config)"
      by auto
    then have "take 1 evs' = [Sent (bump config)]"
      by (cases evs') simp_all
    moreover have "snd (client_request ?R tr 0 config)
        = Sent config # Waited 1000 # evs'"
      using f pos rc(1) by (simp add: client_request_retry evs'_def)
    ultimately show ?thesis
      by (simp add: makeRequest_unfold[OF assms(5)] b)
  qed
  have stop: "snd (makeRequest this tr endpoint data0 meth) = [Sent config] \<and>
            (\<exists>e. fst (makeRequest this tr endpoint data0 meth) = Inl (Rejected e) \<and>
                 tbo_message e = ''Request failed with status code '' @ string_of_nat s)"
    if "?R \<le> 0"
  proof -
    from that rc(1) have ge: "\<not> retryCount_or_0 config < ?R" by simp
    show ?thesis
      using f ge
      by (simp add: makeRequest_unfold[OF assms(5)] client_request_exhausted assms(1))
  qed
  from retry stop show ?thesis by blast
qed

theorem client_error_is_retried_witness:
  "take 3 (snd (makeRequest
      (TBOBaseClient \<lparr> baseURL = None, username = Some ''user'', password = Some ''secret'',
                        timeout = None, retries = Some 2 \<rparr>
                     \<lparr> TBO_USERNAME = None, TBO_PASSWORD = None \<rparr>)
      (scripted [] (Responded 404 JNull)) ''HotelDetails''
      (JObj [(''Hotelcodes'', JStr ''1402689'')]) (Some POST)))
   = [Sent \<lparr> req_method = POST, req_url = ''/HotelDetails'',
             req_data = Some (JObj [(''Hotelcodes'', JStr ''1402689'')]), req_params = None,
             req_retryCount = Some 0 \<rparr>,
      Waited 1000,
      Sent \<lparr> req_method = POST, req_url = ''/HotelDetails'',
             req_data = Some (JObj [(''Hotelcodes'', JStr ''1402689'')]), req_params = None,
             req_retryCount = Some 1 \<rparr>]"
proof -
  let ?client = "TBOBaseClient \<lparr> baseURL = None, username = Some ''user'',
                                   password = Some ''secret'', timeout = None, retries = Some 2 \<rparr>
                                \<lparr> TBO_USERNAME = None, TBO_PASSWORD = None \<rparr>"
  have h1: "scripted [] (Responded 404 JNull) 0 = Responded 404 JNull"
    by (simp add: scripted_def)
  have h2: "makeRequest_config ''HotelDetails'' (JObj [(''Hotelcodes'', JStr ''1402689'')]) (Some POST)
      = Inr \<lparr> req_method = POST, req_url = ''/HotelDetails'',
             req_data = Some (JObj [(''Hotelcodes'', JStr ''1402689'')]), req_params = None,
             req_retryCount = Some 0 \<rparr>"
    by (simp add: makeRequest_config_def)
  have h3: "0 < config_retries ?client"
    by (simp add: TBOBaseClient_def or_number_def)
  have a: "400 \<le> (404::nat)" and b: "(404::nat) \<le> 499" and c: "(404::nat) \<noteq> 401"
    by simp_all
  show ?thesis
    using client_error_is_retried[where tr = "scripted [] (Responded 404 JNull)"
        and this = ?client, OF h1 a b c h2] h3
    by simp
qed

text \<open>
  A 404 on the first attempt followed by a 200: the call retries and resolves with the
  body of the second response.
\<close>

theorem client_error_counterexample:
  "makeRequest
      (TBOBaseClient \<lparr> baseURL = None, username = Some ''user'', password = Some ''secret'',
                        timeout = None, retries = None \<rparr>
                     \<lparr> TBO_USERNAME = None, TBO_PASSWORD = None \<rparr>)
      (scripted [Responded 404 JNull]
         (Responded 200 (JObj [(''Status'', JObj [(''Code'', JNum 200),
                                                   (''Description'', JStr ''Success'')])])))
      ''CountryList'' (JObj []) (Some GET)
   = (Inr (JObj [(''Status'', JObj [(''Code'', JNum 200), (''Description'', JStr ''Success'')])]),
      [Sent \<lparr> req_method = GET, req_url = ''/CountryList'', req_data = None,
              req_params = None, req_retryCount = Some 0 \<rparr>,
       Waited 1000,
       Sent \<lparr> req_method = GET, req_url = ''/CountryList'', req_data = None,
              req_params = None, req_retryCount = Some 1 \<rparr>])"
  by (simp add: makeRequest_def makeRequest_config_def client_request.simps scripted_def
      TBOBaseClient_def or_number_def or_string_def retryCount_or_0_def validateStatus_def
      Let_def)

section \<open>\<open>retries: 0\<close> is replaced by the default (C3)\<close>

text \<open>
  C3. The claim is that a client constructed with \<open>retries = 0\<close> makes exactly one
  attempt when the transport answers 500. The constructor computes
  \<open>config.retries || 3\<close>, and \<open>0\<close> is falsy: the client keeps the retry count \<open>3\<close>. With a
  transport that answers 500 to every attempt the call makes four attempts, after waits
  of one, two and three seconds.
\<close>

theorem retries_zero_becomes_three:
  "config_retries
      (TBOBaseClient \<lparr> baseURL = None, username = Some ''user'', password = Some ''secret'',
                        timeout = None, retries = Some 0 \<rparr>
                     \<lparr> TBO_USERNAME = None, TBO_PASSWORD = None \<rparr>) = 3 \<and>
   attempts (snd (makeRequest
      (TBOBaseClient \<lparr> baseURL = None, username = Some ''user'', password = Some ''secret'',
                        timeout = None, retries = Some 0 \<rparr>
                     \<lparr> TBO_USERNAME = None, TBO_PASSWORD = None \<rparr>)
      (scripted [] (Responded 500 JNull)) ''CountryList'' (JObj []) (Some GET))) = 4 \<and>
   waits (snd (makeRequest
      (TBOBaseClient \<lparr> baseURL = None, username = Some ''user'', password = Some ''secret'',
                        timeout = None, retries = Some 0 \<rparr>
                     \<lparr> TBO_USERNAME = None, TBO_PASSWORD = None \<rparr>)
      (scripted [] (Responded 500 JNull)) ''CountryList'' (JObj []) (Some GET)))
     = [1000, 2000, 3000]"
  by (simp add: makeRequest_def makeRequest_config_def client_request.simps scripted_def
      TBOBaseClient_def or_number_def or_string_def retryCount_or_0_def validateStatus_def
      attempts_def Let_def)

section \<open>The error thrown after the last attempt (C4)\<close>

lemma string_of_nat_500: "string_of_nat 500 = ''500''"
  by code_simp

text \<open>
  C4. The claim is that after \<open>retries + 1\<close> failed attempts the caller receives the
  error built from the final attempt's failure, carrying its cause. The interceptor
  builds that error with \<open>createTBOError\<close>, and the \<open>catch\<close> block of \<open>makeRequest\<close> applies
  \<open>createTBOError\<close> to it a second time, reading \<open>response.status\<close> and \<open>config\<close> from an
  object that has neither. With \<open>retries = 1\<close> and a transport that answers 500 with an
  error body, two attempts are made; the error thrown keeps the message but its
  \<open>code\<close>, \<open>response\<close> and \<open>request\<close> are \<open>undefined\<close>, whereas the error built from the
  final failure has \<open>code = 500\<close>, the body and the request configuration.
\<close>

theorem final_error_loses_status:
  "makeRequest
      (TBOBaseClient \<lparr> baseURL = None, username = Some ''user'', password = Some ''secret'',
                        timeout = None, retries = Some 1 \<rparr>
                     \<lparr> TBO_USERNAME = None, TBO_PASSWORD = None \<rparr>)
      (scripted [] (Responded 500 (JObj [(''Status'', JObj [(''Code'', JNum 500),
                                           (''Description'', JStr ''Unexpected Error'')])])))
      ''CountryList'' (JObj []) (Some GET)
   = (Inl (Rejected \<lparr> tbo_message = ''Request failed with status code 500'',
                      tbo_code = JUndefined, tbo_response = JUndefined, tbo_request = None \<rparr>),
      [Sent \<lparr> req_method = GET, req_url = ''/CountryList'', req_data = None,
              req_params = None, req_retryCount = Some 0 \<rparr>,
       Waited 1000,
       Sent \<lparr> req_method = GET, req_url = ''/CountryList'', req_data = None,
              req_params = None, req_retryCount = Some 1 \<rparr>]) \<and>
   createTBOError (AxiosError (rejection
       \<lparr> req_method = GET, req_url = ''/CountryList'', req_data = None,
         req_params = None, req_retryCount = Some 1 \<rparr>
       (Responded 500 (JObj [(''Status'', JObj [(''Code'', JNum 500),
                                (''Description'', JStr ''Unexpected Error'')])]))))
   = \<lparr> tbo_message = ''Request failed with status code 500'',
       tbo_code = JNum 500,
       tbo_response = JObj [(''Status'', JObj [(''Code'', JNum 500),
                              (''Description'', JStr ''Unexpected Error'')])],
       tbo_request = Some \<lparr> req_method = GET, req_url = ''/CountryList'', req_data = None,
                             req_params = None, req_retryCount = Some 1 \<rparr> \<rparr>"
  by (simp add: makeRequest_def makeRequest_config_def client_request.simps scripted_def
      TBOBaseClient_def or_number_def or_string_def retryCount_or_0_def validateStatus_def
      Let_def lookup_field_def string_of_nat_500)

section \<open>Success after retried server errors (C5)\<close>

text \<open>
  C5. When the first \<open>k\<close> attempts are answered with a 5xx status, attempt \<open>k + 1\<close> is
  answered with a 2xx status, and \<open>k\<close> does not exceed the client's retry count,
  \<open>makeRequest\<close> resolves with the body of that response, unchanged, after exactly
  \<open>k + 1\<close> attempts. With three retries and the outcomes 500, 500, 200 it succeeds on
  the third attempt.
\<close>

theorem retry_then_success:
  assumes "\<forall>i<k. \<exists>s b. tr i = Responded s b \<and> 500 \<le> s \<and> s \<le> 599"
    and "tr k = Responded s body" and "200 \<le> s" and "s < 300"
    and "int k \<le> config_retries this"
  shows "fst (makeRequest this tr endpoint (JObj payload) meth) = Inr body \<and>
         attempts (snd (makeRequest this tr endpoint (JObj payload) meth)) = Suc k"
proof -
  have f: "\<forall>i<k. failed (tr i)"
    using assms(1) by (fastforce simp: validateStatus_def)
  have v: "validateStatus s"
    using assms(3,4) by (simp add: validateStatus_def)
  show ?thesis
    using makeRequest_succeeds_after[OF makeRequest_config_JObj f assms(2) v assms(5)]
    by simp
qed

theorem retry_then_success_witness:
  "fst (makeRequest
      (TBOBaseClient \<lparr> baseURL = None, username = Some ''user'', password = Some ''secret'',
                        timeout = None, retries = Some 3 \<rparr>
                     \<lparr> TBO_USERNAME = None, TBO_PASSWORD = None \<rparr>)
      (scripted [Responded 500 JNull, Responded 500 JNull]
         (Responded 200 (JObj [(''Status'', JObj [(''Code'', JNum 200),
                                                   (''Description'', JStr ''Success'')]),
                               (''CountryList'', JArr [JObj [(''Code'', JStr ''IN''),
                                                             (''Name'', JStr ''India'')]])])))
      ''CountryList'' (JObj []) (Some GET))
     = Inr (JObj [(''Status'', JObj [(''Code'', JNum 200), (''Description'', JStr ''Success'')]),
                  (''CountryList'', JArr [JObj [(''Code'', JStr ''IN''),
                                                (''Name'', JStr ''India'')]])]) \<and>
   attempts (snd (makeRequest
      (TBOBaseClient \<lparr> baseURL = None, username = Some ''user'', password = Some ''secret'',
                        timeout = None, retries = Some 3 \<rparr>
                     \<lparr> TBO_USERNAME = None, TBO_PASSWORD = None \<rparr>)
      (scripted [Responded 500 JNull, Responded 500 JNull]
         (Responded 200 (JObj [(''Status'', JObj [(''Code'', JNum 200),
                                                   (''Description'', JStr ''Success'')]),
                               (''CountryList'', JArr [JObj [(''Code'', JStr ''IN''),
                                                             (''Name'', JStr ''India'')]])])))
      ''CountryList'' (JObj []) (Some GET))) = 3"
proof -
  let ?body = "JObj [(''Status'', JObj [(''Code'', JNum 200), (''Description'', JStr ''Success'')]),
                     (''CountryList'', JArr [JObj [(''Code'', JStr ''IN''),
                                                   (''Name'', JStr ''India'')]])]"
  let ?tr = "scripted [Responded 500 JNull, Responded 500 JNull] (Responded 200 ?body)"
  let ?client = "TBOBaseClient \<lparr> baseURL = None, username = Some ''user'',
                                 password = Some ''secret'', timeout = None, retries = Some 3 \<rparr>
                              \<lparr> TBO_USERNAME = None, TBO_PASSWORD = None \<rparr>"
  have h1: "\<forall>i<2. \<exists>s b. ?tr i = Responded s b \<and> 500 \<le> s \<and> s \<le> 599"
    by (auto simp: scripted_def less_Suc_eq numeral_2_eq_2)
  have h2: "?tr 2 = Responded 200 ?body"
    by (simp add: scripted_def)
  have h3: "int 2 \<le> config_retries ?client"
    by (simp add: TBOBaseClient_def or_number_def)
  show ?thesis
    using retry_then_success[OF h1 h2 _ _ h3, of "''CountryList''" "[]" "Some GET"]
    by simp
qed

section \<open>Linear backoff (C6)\<close>

text \<open>
  C6. In every call, for every attempt \<open>N > 1\<close> that is issued, the event just before
  the \<open>N\<close>-th request is a wait of \<open>1000 * (N - 1)\<close> ms, and the \<open>N\<close>-th request is the
  configuration \<open>makeRequest\<close> built, with \<open>_retryCount = N - 1\<close> and nothing else changed:
  the counter is incremented first, the wait is computed from the incremented counter,
  and the same configuration is requested again after the wait. The trace alternates
  requests and waits, so the \<open>N\<close>-th request is event \<open>2N - 2\<close> and the wait before it is
  event \<open>2N - 3\<close>.
\<close>

theorem backoff_delay_linear:
  assumes "makeRequest_config endpoint data0 meth = Inr config"
    and "evs = snd (makeRequest this tr endpoint data0 meth)"
    and "1 < N" and "N \<le> attempts evs"
  shows "evs ! (2 * N - 3) = Waited (1000 * (int N - 1)) \<and>
         evs ! (2 * N - 2) = Sent (config\<lparr> req_retryCount := Some (int N - 1) \<rparr>) \<and>
         waits evs ! (N - 2) = 1000 * (int N - 1) \<and>
         sent_configs evs ! (N - 1) = config\<lparr> req_retryCount := Some (int N - 1) \<rparr> \<and>
         length evs = 2 * attempts evs - 1"
proof -
  have rc: "retryCount_or_0 config = 0" "req_retryCount config = Some 0"
    using makeRequest_config_retryCount[OF assms(1)] by simp_all
  have evs: "evs = snd (client_request (config_retries this) tr 0 config)"
    using assms(2) by (simp add: makeRequest_unfold[OF assms(1)])
  note t = client_request_trace[OF refl evs]
  have i1: "N - 1 < attempts evs" and i2: "Suc (N - 2) < attempts evs"
    using assms(3,4) by simp_all
  have n1: "2 * (N - 1) = 2 * N - 2" and n2: "2 * (N - 2) + 1 = 2 * N - 3"
    using assms(3) by simp_all
  have z1: "int (N - 1) = int N - 1" and z2: "int (N - 2) + 1 = int N - 1"
    using assms(3) by simp_all
  have sent: "evs ! (2 * (N - 1)) = Sent ((bump ^^ (N - 1)) config) \<and>
              sent_configs evs ! (N - 1) = (bump ^^ (N - 1)) config"
    using t i1 by blast
  have wait: "evs ! (2 * (N - 2) + 1) = Waited (1000 * (retryCount_or_0 config + int (N - 2) + 1)) \<and>
              waits evs ! (N - 2) = 1000 * (retryCount_or_0 config + int (N - 2) + 1)"
    using t i2 by blast
  have len: "length evs = 2 * attempts evs - 1"
    using t by blast
  from sent wait len show ?thesis
    unfolding n1 n2 bump_funpow[OF rc(2)] rc(1) z1 by (simp add: z2)
qed

theorem backoff_delay_linear_witness:
  "snd (makeRequest
      (TBOBaseClient \<lparr> baseURL = None, username = Some ''user'', password = Some ''secret'',
                        timeout = None, retries = Some 3 \<rparr>
                     \<lparr> TBO_USERNAME = None, TBO_PASSWORD = None \<rparr>)
      (scripted [NoResponse ''timeout of 30000ms exceeded'', Responded 503 JNull]
         (Responded 200 JNull))
      ''CountryList'' (JObj []) (Some GET)) ! 3 = Waited 2000 \<and>
   snd (makeRequest
      (TBOBaseClient \<lparr> baseURL = None, username = Some ''user'', password = Some ''secret'',
                        timeout = None, retries = Some 3 \<rparr>
                     \<lparr> TBO_USERNAME = None, TBO_PASSWORD = None \<rparr>)
      (scripted [NoResponse ''timeout of 30000ms exceeded'', Responded 503 JNull]
         (Responded 200 JNull))
      ''CountryList'' (JObj []) (Some GET)) ! 4
     = Sent \<lparr> req_method = GET, req_url = ''/CountryList'', req_data = None,
              req_params = None, req_retryCount = Some 2 \<rparr>"
proof -
  let ?client = "TBOBaseClient \<lparr> baseURL = None, username = Some ''user'',
                                   password = Some ''secret'', timeout = None, retries = Some 3 \<rparr>
                                \<lparr> TBO_USERNAME = None, TBO_PASSWORD = None \<rparr>"
  let ?tr = "scripted [NoResponse ''timeout of 30000ms exceeded'', Responded 503 JNull]
               (Responded 200 JNull)"
  let ?evs = "snd (makeRequest ?client ?tr ''CountryList'' (JObj []) (Some GET))"
  have h1: "makeRequest_config ''CountryList'' (JObj []) (Some GET)
      = Inr \<lparr> req_method = GET, req_url = ''/CountryList'', req_data = None,
              req_params = None, req_retryCount = Some 0 \<rparr>"
    by (simp add: makeRequest_config_def)
  have h3: "1 < (3::nat)" by simp
  have h4: "3 \<le> attempts ?evs"
    by (simp add: makeRequest_def makeRequest_config_def client_request.simps scripted_def
      TBOBaseClient_def or_number_def or_string_def retryCount_or_0_def validateStatus_def
      attempts_def Let_def)
  show ?thesis
    using backoff_delay_linear[OF h1 refl h3 h4]
    by simp
qed

section \<open>A successful response is returned unchanged (C7)\<close>



section \<open>The payload is routed by method (C8)\<close>



section \<open>Lemmas about the extraction helpers\<close>




section \<open>The extraction helpers on a response (C9)\<close>




section \<open>Refundability reported by \<open>extractPreBookInfo\<close> (C10)\<close>

text \<open>
  C10. Whenever the first cancellation policy of a pre-book response has
  \<open>CancellationCharge\<close> equal to \<open>0\<close>, \<open>extractPreBookInfo\<close> reports \<open>isRefundable = true\<close>,
  whatever the \<open>NonRefundable\<close> flag says; when the response has no
  \<open>CancellationPolicies\<close> object (or no booking details at all), \<open>isRefundable\<close> is
  \<open>false\<close>.
\<close>

theorem extractPreBookInfo_refundable:
  "(HotelBookingDetails response = Some details \<and>
    CancellationPolicies details = Some cp \<and>
    CancelPolicies cp = Some (firstPolicy # rest) \<and>
    CancellationCharge firstPolicy = 0
      \<longrightarrow> isRefundable (extractPreBookInfo response)) \<and>
   (HotelBookingDetails response = Some details \<and> CancellationPolicies details = None
      \<longrightarrow> \<not> isRefundable (extractPreBookInfo response)) \<and>
   (HotelBookingDetails response = None \<longrightarrow> \<not> isRefundable (extractPreBookInfo response))"
  by (auto simp: extractPreBookInfo_def extract_cancellation_def extract_pricing_def
        extract_status_def info_init_def Let_def split: option.splits)

theorem extractPreBookInfo_refundable_witness:
  "isRefundable (extractPreBookInfo
     \<lparr> Status = Some \<lparr> Code = 200, Description = ''Successful'' \<rparr>,
       HotelBookingDetails = Some
         \<lparr> BookingCode = ''1247101!TB!1!TB!d22e2d9e'', HotelName = ''Sample Hotel'',
           CheckIn = ''2026-12-01'', CheckOut = ''2026-12-02'', Price = None,
           CancellationPolicies = Some
             \<lparr> CancelPolicies = Some [\<lparr> FromDate = ''2026-11-20'', ChargeType = ''Fixed'',
                                         CancellationCharge = 0 \<rparr>,
                                      \<lparr> FromDate = ''2026-11-28'', ChargeType = ''Percentage'',
                                         CancellationCharge = 100 \<rparr>],
               NonRefundable = True \<rparr> \<rparr> \<rparr>) \<and>
   \<not> isRefundable (extractPreBookInfo
     \<lparr> Status = Some \<lparr> Code = 200, Description = ''Successful'' \<rparr>,
       HotelBookingDetails = Some
         \<lparr> BookingCode = ''1247101!TB!1!TB!d22e2d9e'', HotelName = ''Sample Hotel'',
           CheckIn = ''2026-12-01'', CheckOut = ''2026-12-02'', Price = None,
           CancellationPolicies = None \<rparr> \<rparr>) \<and>
   \<not> isRefundable (extractPreBookInfo \<lparr> Status = None, HotelBookingDetails = None \<rparr>)"
  using
    extractPreBookInfo_refundable
      [of "\<lparr> Status = Some \<lparr> Code = 200, Description = ''Successful'' \<rparr>,
             HotelBookingDetails = Some
               \<lparr> BookingCode = ''1247101!TB!1!TB!d22e2d9e'', HotelName = ''Sample Hotel'',
                 CheckIn = ''2026-12-01'', CheckOut = ''2026-12-02'', Price = None,
                 CancellationPolicies = Some
                   \<lparr> CancelPolicies = Some [\<lparr> FromDate = ''2026-11-20'', ChargeType = ''Fixed'',
                                               CancellationCharge = 0 \<rparr>,
                                            \<lparr> FromDate = ''2026-11-28'', ChargeType = ''Percentage'',
                                               CancellationCharge = 100 \<rparr>],
                     NonRefundable = True \<rparr> \<rparr> \<rparr>"
          "\<lparr> BookingCode = ''1247101!TB!1!TB!d22e2d9e'', HotelName = ''Sample Hotel'',
             CheckIn = ''2026-12-01'', CheckOut = ''2026-12-02'', Price = None,
             CancellationPolicies = Some
               \<lparr> CancelPolicies = Some [\<lparr> FromDate = ''2026-11-20'', ChargeType = ''Fixed'',
                                           CancellationCharge = 0 \<rparr>,
                                        \<lparr> FromDate = ''2026-11-28'', ChargeType = ''Percentage'',
                                           CancellationCharge = 100 \<rparr>],
                 NonRefundable = True \<rparr> \<rparr>"
          "\<lparr> CancelPolicies = Some [\<lparr> FromDate = ''2026-11-20'', ChargeType = ''Fixed'',
                                      CancellationCharge = 0 \<rparr>,
                                   \<lparr> FromDate = ''2026-11-28'', ChargeType = ''Percentage'',
                                      CancellationCharge = 100 \<rparr>],
             NonRefundable = True \<rparr>"
          "\<lparr> FromDate = ''2026-11-20'', ChargeType = ''Fixed'', CancellationCharge = 0 \<rparr>"
          "[\<lparr> FromDate = ''2026-11-28'', ChargeType = ''Percentage'',
              CancellationCharge = 100 \<rparr>]"]
    extractPreBookInfo_refundable
      [of "\<lparr> Status = Some \<lparr> Code = 200, Description = ''Successful'' \<rparr>,
             HotelBookingDetails = Some
               \<lparr> BookingCode = ''1247101!TB!1!TB!d22e2d9e'', HotelName = ''Sample Hotel'',
                 CheckIn = ''2026-12-01'', CheckOut = ''2026-12-02'', Price = None,
                 CancellationPolicies = None \<rparr> \<rparr>"
          "\<lparr> BookingCode = ''1247101!TB!1!TB!d22e2d9e'', HotelName = ''Sample Hotel'',
             CheckIn = ''2026-12-01'', CheckOut = ''2026-12-02'', Price = None,
             CancellationPolicies = None \<rparr>"]
    extractPreBookInfo_refundable [of "\<lparr> Status = None, HotelBookingDetails = None \<rparr>"]
  by simp

end
